theory Spec2Isabelle
  imports Complex_Main
begin

section \<open>Common conventions\<close>

text \<open>
  The development embeds three modules of gym-electric-motor:
  \<^item> \<^verbatim>\<open>physical_systems/converters/finite_control_set/finite_one_quadrant_converter.py\<close>,
  \<^item> \<^verbatim>\<open>physical_systems/scml_system.py\<close> (the Supply-Converter-Motor-Load engine),
  \<^item> \<^verbatim>\<open>core/electric_motor_environment.py\<close> (the orchestration environment).

  Python floats are idealised as \<^typ>\<open>real\<close>; Python exceptions are values of the
  datatype below, and a function that may raise returns \<open>exn + 'a\<close> with \<open>Inl\<close> the
  exception.
\<close>

datatype exn =
    AssertionError
  | AttributeError string
  | NameError string
  | TypeError
  | ValueError
  | IndexError
  | Raised string

section \<open>The single-quadrant finite converter\<close>

text \<open>
  \<^verbatim>\<open>FiniteOneQuadrantConverter\<close> keeps the switching action in the attribute
  \<^verbatim>\<open>_current_action\<close>, which the base class \<^verbatim>\<open>FiniteConverter\<close> maintains
  (0: transistor off, 1: transistor on).
\<close>

record converter =
  current_action :: int

text \<open>
  \<^verbatim>\<open>return [self._current_action * u_sup[0] if i_out[0] >= 0 else u_sup[0]]\<close>

  The conditional expression evaluates its test \<^verbatim>\<open>i_out[0] >= 0\<close> first, and both
  branches read \<^verbatim>\<open>u_sup[0]\<close>; an empty sequence raises \<^verbatim>\<open>IndexError\<close>.
\<close>

definition convert :: "converter \<Rightarrow> real \<Rightarrow> real list \<Rightarrow> real list \<Rightarrow> exn + real list" where
  "convert c t i_out u_sup =
     (case i_out of
        [] \<Rightarrow> Inl IndexError
      | i # _ \<Rightarrow>
          (case u_sup of
             [] \<Rightarrow> Inl IndexError
           | u # _ \<Rightarrow> Inr [if 0 \<le> i then of_int (current_action c) * u else u]))"

text \<open>
  \<^verbatim>\<open>return i_out[0] if self._current_action == 1 else 0\<close>
\<close>

definition i_sup :: "converter \<Rightarrow> real list \<Rightarrow> exn + real" where
  "i_sup c i_out =
     (if current_action c = 1
      then (case i_out of [] \<Rightarrow> Inl IndexError | i # _ \<Rightarrow> Inr i)
      else Inr 0)"

section \<open>Array operations of numpy used by the engine\<close>

text \<open>
  One-dimensional arrays are lists. A slice \<^verbatim>\<open>slice(a, b)\<close> with non-negative bounds is
  the pair \<open>(a, b)\<close>; reading it clips to the array, as Python does.
\<close>

type_synonym pyslice = "nat \<times> nat"

definition py_slice :: "pyslice \<Rightarrow> 'a list \<Rightarrow> 'a list" where
  "py_slice sl xs = take (snd sl - fst sl) (drop (fst sl) xs)"

text \<open>
  \<^verbatim>\<open>arr[a:b] = v\<close> on an array: the value must have the length of the (clipped) slice,
  or length one (it is then broadcast); any other length raises \<^verbatim>\<open>ValueError\<close>.
\<close>

definition np_setslice :: "real list \<Rightarrow> pyslice \<Rightarrow> real list \<Rightarrow> exn + real list" where
  "np_setslice arr sl v =
     (let a = min (fst sl) (length arr);
          b = max a (min (snd sl) (length arr));
          n = b - a
      in if length v = n then Inr (take a arr @ v @ drop b arr)
         else if length v = 1 then Inr (take a arr @ replicate n (hd v) @ drop b arr)
         else Inl ValueError)"

text \<open>
  \<^verbatim>\<open>x / y\<close> on two arrays: elementwise for equal lengths, broadcast when one of them
  has length one, \<^verbatim>\<open>ValueError\<close> otherwise. (A zero divisor gives an infinity or a
  NaN in numpy and has no counterpart over the reals; no theorem below divides by zero.)
\<close>

definition np_divide :: "real list \<Rightarrow> real list \<Rightarrow> exn + real list" where
  "np_divide xs ys =
     (if length xs = length ys then Inr (map2 (/) xs ys)
      else if length ys = 1 then Inr (map (\<lambda>x. x / hd ys) xs)
      else if length xs = 1 then Inr (map (\<lambda>y. hd xs / y) ys)
      else Inl ValueError)"

section \<open>The SCML engine\<close>

subsection \<open>The components, as the engine sees them\<close>

text \<open>
  Supply, converter, motor, load and ODE solver are objects of classes outside
  \<^verbatim>\<open>scml_system.py\<close>. Their joint mutable state is a value of an arbitrary type
  \<open>'c\<close>; what they declare and what their methods compute are the fields of the
  record below. A method that mutates its object returns the new joint state.
\<close>

datatype jac_arg = NoJacobian | SystemJacobian

type_synonym matrix = "real list list"

record ('c, 'act) scml_components =
  supply_supply_shape :: "nat list"
  converter_supply_shape :: "nat list"
  converter_output_shape :: "nat list"
  motor_input_shape :: "nat list"
  motor_torque_shape :: "nat list"
  load_speed_shape :: "nat list"
  motor_HAS_JACOBIAN :: bool
  load_HAS_JACOBIAN :: bool
  motor_ode_size :: nat
  load_ode_size :: nat
  motor_j_rotor :: real
  load_observation_names :: "string list"
  motor_observation_names :: "string list"
  converter_observation_names :: "string list"
  supply_observation_names :: "string list"
  load_limits :: "real list"
  motor_limits :: "real list"
  converter_limits :: "real list"
  supply_limits :: "real list"
  solver_set_system_equation :: "jac_arg \<Rightarrow> 'c \<Rightarrow> 'c"
  solver_set_initial_value :: "real list \<Rightarrow> real \<Rightarrow> 'c \<Rightarrow> 'c"
  solver_integrate :: "real \<Rightarrow> 'c \<Rightarrow> real list \<times> 'c"
  solver_t :: "'c \<Rightarrow> real"
  solver_y :: "'c \<Rightarrow> real list"
  load_set_j_rotor :: "real \<Rightarrow> 'c \<Rightarrow> 'c"
  load_reset :: "'c \<Rightarrow> 'c"
  load_get_omega :: "'c \<Rightarrow> real list \<Rightarrow> real"
  load_mechanical_ode :: "'c \<Rightarrow> real \<Rightarrow> real list \<Rightarrow> real \<Rightarrow> real list"
  load_mechanical_jacobian :: "'c \<Rightarrow> real \<Rightarrow> real list \<Rightarrow> real \<Rightarrow> matrix \<times> real list"
  load_get_observation :: "'c \<Rightarrow> real list option \<Rightarrow> real list"
  motor_reset :: "'c \<Rightarrow> 'c"
  motor_i_in :: "'c \<Rightarrow> real \<Rightarrow> real list option \<Rightarrow> real list"
  motor_set_u_in :: "real list \<Rightarrow> 'c \<Rightarrow> 'c"
  motor_electrical_ode :: "'c \<Rightarrow> real list \<Rightarrow> real \<Rightarrow> real list"
  motor_electrical_jacobian :: "'c \<Rightarrow> real list \<Rightarrow> real \<Rightarrow> matrix \<times> real list \<times> real list"
  motor_torque :: "'c \<Rightarrow> real list \<Rightarrow> real"
  motor_get_observation :: "'c \<Rightarrow> real list option \<Rightarrow> real list"
  converter_reset :: "'c \<Rightarrow> 'c"
  converter_set_action :: "'act \<Rightarrow> real \<Rightarrow> 'c \<Rightarrow> real list \<times> 'c"
  converter_i_sup :: "'c \<Rightarrow> real list \<Rightarrow> real"
  converter_convert :: "'c \<Rightarrow> real \<Rightarrow> real list \<Rightarrow> real list \<Rightarrow> real list"
  converter_get_observation :: "'c \<Rightarrow> real list"
  supply_reset :: "'c \<Rightarrow> 'c"
  supply_get_u_sup :: "real \<Rightarrow> real \<Rightarrow> 'c \<Rightarrow> real list \<times> 'c"
  supply_get_observation :: "'c \<Rightarrow> real list"

subsection \<open>The base classes\<close>

text \<open>
  \<^verbatim>\<open>PhysicalSystem\<close> and \<^verbatim>\<open>RandomComponent\<close> are not part of the sources at hand.
  The engine calls their initialisers without arguments, their \<^verbatim>\<open>reset\<close> and
  \<^verbatim>\<open>_count_step\<close>; these act on the step counter and the time and are parameters.
  Four attributes are read by the engine's methods but assigned nowhere in the class:
  \<^verbatim>\<open>_motor_state_slice\<close>, \<^verbatim>\<open>_load_state_slice\<close>, \<^verbatim>\<open>_load_ode_idx\<close> and
  \<^verbatim>\<open>_omega_ode_idx\<close>. Whether an instance has them is decided by the base classes
  alone, so their presence is a parameter as well: \<open>None\<close> stands for an attribute the
  instance does not have, whose read raises \<^verbatim>\<open>AttributeError\<close>. An initialiser that
  receives no argument cannot know the ODE sizes of motor and load; the value to expect
  is \<open>None\<close> throughout.
\<close>

record base_classes =
  base_motor_state_slice :: "pyslice option"
  base_load_state_slice :: "pyslice option"
  base_load_ode_idx :: "pyslice option"
  base_omega_ode_idx :: "nat option"
  base_count_step :: "nat \<times> real \<Rightarrow> nat \<times> real"
  base_reset :: "nat \<times> real \<Rightarrow> nat \<times> real"

subsection \<open>The engine's own attributes\<close>

record engine =
  sys_tau :: real
  sys_t :: real
  sys_k :: nat
  motor_state :: "real list option"
  load_state :: "real list option"
  state_names :: "string list"
  load_ode_slice :: pyslice
  motor_ode_slice :: pyslice
  sys_limits :: "real list option"
  sys_nominal_state :: "real list option"
  initial_ode_value :: "real list"
  system_observation :: "real list"
  system_derivative :: "real list"
  system_jacobian_field :: matrix
  motor_state_slice :: "pyslice option"
  load_state_slice :: "pyslice option"
  load_ode_idx :: "pyslice option"
  omega_ode_idx :: "nat option"

subsection \<open>Construction\<close>

text \<open>
  \<^verbatim>\<open>SCMLSystem.__init__(converter, motor, load, supply, ode_solver, tau, calc_jacobian)\<close>.
  The three \<^verbatim>\<open>assert\<close> statements come first. \<^verbatim>\<open>calc_jacobian\<close> is \<open>None\<close>
  (the default) or a truth value. The result holds the new engine, the components'
  state after \<^verbatim>\<open>set_system_equation\<close> and \<^verbatim>\<open>set_j_rotor\<close>, and the warnings issued.
  The attribute \<^verbatim>\<open>_system_jacobian\<close> assigned last is an array of zeros, stored under
  the name of the method; \<open>jac\<close> was bound to the method before.
\<close>

definition jacobian_warning :: string where
  "jacobian_warning = ''Jacobian Matrix is not provided for either the motor or the load Model''"

definition init ::
  "('c, 'act) scml_components \<Rightarrow> base_classes \<Rightarrow> real \<Rightarrow> bool option \<Rightarrow> 'c
     \<Rightarrow> exn + (engine \<times> 'c \<times> string list)" where
  "init P base tau_arg calc_jacobian c =
     (if supply_supply_shape P \<noteq> converter_supply_shape P then Inl AssertionError
      else if converter_output_shape P \<noteq> motor_input_shape P then Inl AssertionError
      else if motor_torque_shape P \<noteq> load_speed_shape P then Inl AssertionError
      else
        let calc = (case calc_jacobian of
                      None \<Rightarrow> motor_HAS_JACOBIAN P \<and> load_HAS_JACOBIAN P
                    | Some b \<Rightarrow> b);
            jac = (if calc \<and> motor_HAS_JACOBIAN P \<and> load_HAS_JACOBIAN P
                   then SystemJacobian else NoJacobian);
            warns = (if calc \<and> jac = NoJacobian then [jacobian_warning] else []);
            c1 = solver_set_system_equation P jac c;
            c2 = load_set_j_rotor P (motor_j_rotor P) c1;
            names = load_observation_names P @ motor_observation_names P
                    @ converter_observation_names P @ supply_observation_names P;
            n = load_ode_size P + motor_ode_size P
        in Inr (\<lparr> sys_tau = tau_arg,
                  sys_t = 0,
                  sys_k = 0,
                  motor_state = None,
                  load_state = None,
                  state_names = names,
                  load_ode_slice = (0, load_ode_size P),
                  motor_ode_slice = (load_ode_size P, load_ode_size P + motor_ode_size P),
                  sys_limits = None,
                  sys_nominal_state = None,
                  initial_ode_value = replicate (motor_ode_size P + load_ode_size P) 0,
                  system_observation = replicate (length names) 0,
                  system_derivative = replicate n 0,
                  system_jacobian_field = replicate n (replicate n 0),
                  motor_state_slice = base_motor_state_slice base,
                  load_state_slice = base_load_state_slice base,
                  load_ode_idx = base_load_ode_idx base,
                  omega_ode_idx = base_omega_ode_idx base \<rparr>,
                c2, warns))"

text \<open>
  The property \<^verbatim>\<open>limits\<close>: computed from the components on the first read, in the
  order load, motor, converter, supply, and cached in \<^verbatim>\<open>_limits\<close>.
\<close>

definition limits :: "('c, 'act) scml_components \<Rightarrow> engine \<Rightarrow> real list \<times> engine" where
  "limits P e =
     (case sys_limits e of
        None \<Rightarrow>
          (let l = load_limits P @ motor_limits P @ converter_limits P @ supply_limits P
           in (l, e\<lparr>sys_limits := Some l\<rparr>))
      | Some l \<Rightarrow> (l, e))"

subsection \<open>The system equation and the system Jacobian\<close>

text \<open>
  \<^verbatim>\<open>_system_equation(t, state)\<close> writes the two derivative segments into the buffer
  \<^verbatim>\<open>_system_derivative\<close> and returns the buffer.
\<close>

definition system_equation ::
  "('c, 'act) scml_components \<Rightarrow> engine \<Rightarrow> 'c \<Rightarrow> real \<Rightarrow> real list
     \<Rightarrow> exn + (real list \<times> engine)" where
  "system_equation P e c t state =
     (let m_state = py_slice (motor_ode_slice e) state;
          l_state = py_slice (load_ode_slice e) state;
          omega = load_get_omega P c l_state
      in case np_setslice (system_derivative e) (motor_ode_slice e)
                (motor_electrical_ode P c m_state omega) of
           Inl x \<Rightarrow> Inl x
         | Inr d1 \<Rightarrow>
             (let torque = motor_torque P c m_state
              in case np_setslice d1 (load_ode_slice e)
                        (load_mechanical_ode P c t l_state torque) of
                   Inl x \<Rightarrow> Inl x
                 | Inr d2 \<Rightarrow> Inr (d2, e\<lparr>system_derivative := d2\<rparr>)))"

text \<open>
  \<^verbatim>\<open>_system_jacobian(t, state)\<close>, the method. After the calls to the motor it reads
  \<^verbatim>\<open>self._load_ode_idx\<close>. The four assignments that follow subscript the name
  \<^verbatim>\<open>system_jac\<close>, which is bound neither in the function (a subscript assignment binds
  no name) nor in the module (which binds \<^verbatim>\<open>np\<close>, \<^verbatim>\<open>TYPE_CHECKING\<close>,
  \<^verbatim>\<open>warnings\<close>, \<^verbatim>\<open>gem\<close>, \<^verbatim>\<open>RandomComponent\<close>, \<^verbatim>\<open>PhysicalSystem\<close> and
  \<^verbatim>\<open>SCMLSystem\<close>) nor a builtin: the first of them raises \<^verbatim>\<open>NameError\<close>, and the
  lines after it never run.
\<close>

definition system_jacobian ::
  "('c, 'act) scml_components \<Rightarrow> engine \<Rightarrow> 'c \<Rightarrow> real \<Rightarrow> real list \<Rightarrow> exn + matrix" where
  "system_jacobian P e c t state =
     (let m_state = py_slice (motor_ode_slice e) state;
          l_state = py_slice (load_ode_slice e) state;
          omega = load_get_omega P c l_state;
          (motor_jac, el_state_over_omega, torque_over_el_state) =
             motor_electrical_jacobian P c m_state omega;
          torque = motor_torque P c m_state
      in case load_ode_idx e of
           None \<Rightarrow> Inl (AttributeError ''_load_ode_idx'')
         | Some idx \<Rightarrow>
             (let (load_jac, load_over_torque) =
                    load_mechanical_jacobian P c t (py_slice idx state) torque
              in Inl (NameError ''system_jac'')))"

subsection \<open>One control cycle, and reset\<close>

text \<open>
  The loop of \<^verbatim>\<open>simulate\<close> over the switching times. \<^verbatim>\<open>ode_state\<close> is unbound
  until the first pass (\<open>None\<close>). The motor current is computed from
  \<^verbatim>\<open>self._motor_state\<close> and the supply voltage at \<^verbatim>\<open>self._t\<close>, neither of which
  changes inside the loop.
\<close>

fun simulate_loop ::
  "('c, 'act) scml_components \<Rightarrow> engine \<Rightarrow> real list \<Rightarrow> real list option \<Rightarrow> 'c
     \<Rightarrow> real list option \<times> 'c" where
  "simulate_loop P e [] ode_state c = (ode_state, c)"
| "simulate_loop P e (t # ts) ode_state c =
     (let i_in = motor_i_in P c t (motor_state e);
          i_s = converter_i_sup P c i_in;
          (u_sup, c1) = supply_get_u_sup P (sys_t e) i_s c;
          u_in = converter_convert P c1 (solver_t P c1) i_in u_sup;
          c2 = motor_set_u_in P u_in c1;
          (y, c3) = solver_integrate P t c2
      in simulate_loop P e ts (Some y) c3)"

text \<open>
  The observation both \<^verbatim>\<open>simulate\<close> and \<^verbatim>\<open>reset\<close> build: the concatenation of the
  four components' observations, stored in \<^verbatim>\<open>system_observation\<close>, divided by the
  attribute \<^verbatim>\<open>_limits\<close> (the attribute itself, not the property \<^verbatim>\<open>limits\<close>);
  dividing an array by \<^verbatim>\<open>None\<close> raises \<^verbatim>\<open>TypeError\<close>.
\<close>

definition concatenate_observation :: "('c, 'act) scml_components \<Rightarrow> engine \<Rightarrow> 'c \<Rightarrow> real list" where
  "concatenate_observation P e c =
     load_get_observation P c (load_state e)
     @ motor_get_observation P c (motor_state e)
     @ converter_get_observation P c
     @ supply_get_observation P c"

definition emit_observation ::
  "('c, 'act) scml_components \<Rightarrow> engine \<Rightarrow> 'c \<Rightarrow> (exn + real list) \<times> engine \<times> 'c" where
  "emit_observation P e c =
     (let obs = concatenate_observation P e c;
          e1 = e\<lparr>system_observation := obs\<rparr>
      in case sys_limits e1 of
           None \<Rightarrow> (Inl TypeError, e1, c)
         | Some l \<Rightarrow> (np_divide obs l, e1, c))"

definition simulate ::
  "('c, 'act) scml_components \<Rightarrow> base_classes \<Rightarrow> engine \<Rightarrow> 'act \<Rightarrow> 'c
     \<Rightarrow> (exn + real list) \<times> engine \<times> 'c" where
  "simulate P base e action c =
     (let (sw, c1) = converter_set_action P action (sys_t e) c;
          switching_times = sw @ [sys_t e + sys_tau e];
          (ode, c2) = simulate_loop P e switching_times None c1
      in case ode of
           None \<Rightarrow> (Inl (NameError ''ode_state''), e, c2)
         | Some ode_state \<Rightarrow>
             (let (k', t') = base_count_step base (sys_k e, sys_t e);
                  e1 = e\<lparr>sys_k := k', sys_t := t'\<rparr>
              in case motor_state_slice e1 of
                   None \<Rightarrow> (Inl (AttributeError ''_motor_state_slice''), e1, c2)
                 | Some msl \<Rightarrow>
                     (let e2 = e1\<lparr>motor_state := Some (py_slice msl ode_state)\<rparr>
                      in case load_state_slice e2 of
                           None \<Rightarrow> (Inl (AttributeError ''_load_state_slice''), e2, c2)
                         | Some lsl \<Rightarrow>
                             emit_observation P
                               (e2\<lparr>load_state := Some (py_slice lsl ode_state)\<rparr>) c2)))"

text \<open>
  \<^verbatim>\<open>reset\<close>. (\<^verbatim>\<open>next_generator\<close> of \<^verbatim>\<open>RandomComponent\<close> touches the random
  generator only, which is not among the attributes above.)
\<close>

definition reset ::
  "('c, 'act) scml_components \<Rightarrow> base_classes \<Rightarrow> engine \<Rightarrow> 'c
     \<Rightarrow> (exn + real list) \<times> engine \<times> 'c" where
  "reset P base e c =
     (let (k', t') = base_reset base (sys_k e, sys_t e);
          e1 = e\<lparr>sys_k := k', sys_t := t'\<rparr>;
          c1 = supply_reset P (converter_reset P (motor_reset P (load_reset P c)));
          c2 = solver_set_initial_value P (initial_ode_value e1) (sys_t e1) c1;
          e2 = e1\<lparr>motor_state := Some (py_slice (motor_ode_slice e1) (solver_y P c2))\<rparr>;
          e3 = e2\<lparr>load_state := Some (py_slice (load_ode_slice e2) (solver_y P c2))\<rparr>
      in emit_observation P e3 c2)"

section \<open>Seed sequences\<close>

text \<open>
  \<^verbatim>\<open>numpy.random.SeedSequence\<close>, as far as seeding uses it: a sequence is its entropy,
  its spawn key and the number of children it has spawned. \<^verbatim>\<open>SeedSequence(seed)\<close>
  takes the entropy from the operating system when \<^verbatim>\<open>seed\<close> is \<^verbatim>\<open>None\<close> (the
  value drawn is the parameter \<open>os_entropy\<close>) and refuses a negative integer.
  \<^verbatim>\<open>spawn(n)\<close> returns \<open>n\<close> children that share the parent's entropy and extend its
  spawn key by the next \<open>n\<close> child numbers, and advances the parent's counter.
\<close>

record seed_sequence =
  entropy :: nat
  spawn_key :: "nat list"
  n_children_spawned :: nat

definition SeedSequence :: "int option \<Rightarrow> nat \<Rightarrow> exn + seed_sequence" where
  "SeedSequence seed os_entropy =
     (case seed of
        None \<Rightarrow> Inr \<lparr>entropy = os_entropy, spawn_key = [], n_children_spawned = 0\<rparr>
      | Some n \<Rightarrow>
          if n < 0 then Inl ValueError
          else Inr \<lparr>entropy = nat n, spawn_key = [], n_children_spawned = 0\<rparr>)"

definition spawn :: "nat \<Rightarrow> seed_sequence \<Rightarrow> seed_sequence list \<times> seed_sequence" where
  "spawn n sq =
     (map (\<lambda>i. \<lparr>entropy = entropy sq, spawn_key = spawn_key sq @ [i], n_children_spawned = 0\<rparr>)
        [n_children_spawned sq ..< n_children_spawned sq + n],
      sq\<lparr>n_children_spawned := n_children_spawned sq + n\<rparr>)"

text \<open>
  A component that can be seeded is an instance of \<^verbatim>\<open>RandomComponent\<close>; any other
  object is skipped by the \<^verbatim>\<open>isinstance\<close> test. The engine is a
  \<^verbatim>\<open>RandomComponent\<close> with the tuple \<^verbatim>\<open>_random_components\<close> (supply, converter,
  motor, load, solver) of its own.
\<close>

datatype rcomp = NotRandom | Random "seed_sequence option"

record scml_seeds =
  scml_seed_sequence :: "seed_sequence option"
  random_components :: "rcomp list"

datatype env_component = Scml scml_seeds | Other rcomp

text \<open>
  Modelled from the spec: \<^verbatim>\<open>RandomComponent.seed\<close>, which is not among the sources.
  A seed tree node owns one entropy source, "replaced wholesale on re-seeding": the
  component keeps the sequence it is handed.
\<close>

definition random_component_seed :: "seed_sequence \<Rightarrow> rcomp \<Rightarrow> rcomp" where
  "random_component_seed sq component =
     (case component of NotRandom \<Rightarrow> NotRandom | Random _ \<Rightarrow> Random (Some sq))"

text \<open>
  \<^verbatim>\<open>SCMLSystem.seed(seed)\<close>, called with a sequence: the engine keeps it, spawns one
  child per entry of \<^verbatim>\<open>_random_components\<close> from it and seeds the entries that are
  random components, pairing them with the children by \<^verbatim>\<open>zip\<close>.
\<close>

definition scml_seed :: "seed_sequence \<Rightarrow> scml_seeds \<Rightarrow> scml_seeds" where
  "scml_seed sq s =
     (let (sub_seeds, sq') = spawn (length (random_components s)) sq
      in \<lparr> scml_seed_sequence = Some sq',
           random_components =
             map (\<lambda>(component, sub_seed). random_component_seed sub_seed component)
               (zip (random_components s) sub_seeds) \<rparr>)"

definition component_seed :: "seed_sequence \<Rightarrow> env_component \<Rightarrow> env_component" where
  "component_seed sq component =
     (case component of
        Scml s \<Rightarrow> Scml (scml_seed sq s)
      | Other rc \<Rightarrow> Other (random_component_seed sq rc))"

text \<open>
  \<^verbatim>\<open>ElectricMotorEnvironment.seed(seed)\<close> on the list \<^verbatim>\<open>components\<close> (physical system,
  reference generator, reward function, constraint monitor, then the callbacks): the
  result is \<^verbatim>\<open>[sg.entropy]\<close> together with the components as seeded.
\<close>

definition seed_components ::
  "int option \<Rightarrow> nat \<Rightarrow> env_component list \<Rightarrow> exn + (nat list \<times> env_component list)" where
  "seed_components seed os_entropy components =
     (case SeedSequence seed os_entropy of
        Inl x \<Rightarrow> Inl x
      | Inr sg \<Rightarrow>
          (let (sub_sg, sg') = spawn (length components) sg
           in Inr ([entropy sg'],
                   map (\<lambda>(sub, rc). component_seed sub rc) (zip sub_sg components))))"

text \<open>What is left of a component when the sequences it holds are forgotten.\<close>

definition unseeded_rcomp :: "rcomp \<Rightarrow> rcomp" where
  "unseeded_rcomp component = (case component of NotRandom \<Rightarrow> NotRandom | Random _ \<Rightarrow> Random None)"

definition unseeded :: "env_component \<Rightarrow> env_component" where
  "unseeded component =
     (case component of
        Scml s \<Rightarrow> Scml \<lparr> scml_seed_sequence = None,
                         random_components = map unseeded_rcomp (random_components s) \<rparr>
      | Other rc \<Rightarrow> Other (unseeded_rcomp rc))"

section \<open>The orchestration environment\<close>

subsection \<open>Calls that may raise\<close>

text \<open>
  The collaborators of the environment (physical system, reference generator, reward
  function, constraint monitor, callbacks) are objects of other modules. Their joint
  state is a value of an arbitrary type \<open>'w\<close>; a call on one of them runs on that state
  and either returns or raises, and leaves a state behind in both cases.
\<close>

type_synonym ('s, 'a) prog = "'s \<Rightarrow> (exn + 'a) \<times> 's"

definition ret :: "'a \<Rightarrow> ('s, 'a) prog" where
  "ret x s = (Inr x, s)"



subsection \<open>The collaborators' interfaces\<close>

record ('w, 'act) physical_system_obj =
  ps_k :: "'w \<Rightarrow> nat"
  ps_simulate :: "'act \<Rightarrow> ('w, real list) prog"
  ps_reset :: "('w, real list) prog"
  ps_close :: "('w, unit) prog"

record 'w reference_generator_obj =
  rg_set_modules :: "('w, unit) prog"
  rg_reset :: "real list \<Rightarrow> ('w, unit) prog"
  rg_get_reference :: "real list \<Rightarrow> ('w, real list) prog"
  rg_get_reference_observation :: "real list \<Rightarrow> ('w, real list) prog"
  rg_close :: "('w, unit) prog"

record ('w, 'act) reward_function_obj =
  rf_set_modules :: "('w, unit) prog"
  rf_reward :: "real list \<Rightarrow> real list \<Rightarrow> nat \<Rightarrow> 'act \<Rightarrow> real \<Rightarrow> ('w, real) prog"
  rf_reset :: "('w, unit) prog"
  rf_close :: "('w, unit) prog"

record 'w constraint_monitor_obj =
  cm_set_modules :: "('w, unit) prog"
  cm_check_constraints :: "real list \<Rightarrow> ('w, real) prog"

record ('w, 'act) callback_obj =
  set_env :: "('w, unit) prog"
  on_reset_begin :: "('w, unit) prog"
  on_reset_end :: "real list \<Rightarrow> real list \<Rightarrow> ('w, unit) prog"
  on_step_begin :: "nat \<Rightarrow> 'act \<Rightarrow> ('w, unit) prog"
  on_step_end :: "nat \<Rightarrow> real list \<Rightarrow> real list \<Rightarrow> real \<Rightarrow> bool \<Rightarrow> ('w, unit) prog"
  on_close :: "('w, unit) prog"
  render_visualization :: "('w, unit) prog"

subsection \<open>The environment\<close>

text \<open>
  The attributes of \<^verbatim>\<open>ElectricMotorEnvironment\<close>. \<^verbatim>\<open>_done\<close> is \<open>done_flag\<close>;
  \<open>world\<close> is the collaborators' joint state and \<open>seeds\<close> the seed sequences they hold.
  \<^verbatim>\<open>_callbacks\<close> is the tuple of the callbacks followed by the visualizations. The
  collaborators are assumed not to assign \<^verbatim>\<open>_done\<close> behind the environment's back.
\<close>

record ('w, 'act) env =
  physical_system :: "('w, 'act) physical_system_obj"
  reference_generator :: "'w reference_generator_obj"
  reward_function :: "('w, 'act) reward_function_obj"
  constraint_monitor :: "'w constraint_monitor_obj"
  visualizations :: "('w, 'act) callback_obj list"
  callbacks :: "('w, 'act) callback_obj list"
  done_flag :: bool
  world :: 'w
  seeds :: "env_component list"










definition env_seed :: "int option \<Rightarrow> nat \<Rightarrow> (('w, 'act) env, nat list) prog" where
  "env_seed seed os_entropy e =
     (case seed_components seed os_entropy (seeds e) of
        Inl x \<Rightarrow> (Inl x, e)
      | Inr (r, comps) \<Rightarrow> (Inr r, e\<lparr>seeds := comps\<rparr>))"





section \<open>A small instance\<close>

text \<open>
  A drive with one mechanical state (the speed) and one electrical state (the current),
  used to evaluate the definitions on concrete inputs. The components' joint state is
  the voltage last fed to the motor. The load declares no analytic Jacobian, and the
  base classes provide none of the four attributes the class does not assign.
\<close>

definition demo_components :: "(real, int) scml_components" where
  "demo_components =
     \<lparr> supply_supply_shape = [1],
       converter_supply_shape = [1],
       converter_output_shape = [1],
       motor_input_shape = [1],
       motor_torque_shape = [1],
       load_speed_shape = [1],
       motor_HAS_JACOBIAN = True,
       load_HAS_JACOBIAN = False,
       motor_ode_size = 1,
       load_ode_size = 1,
       motor_j_rotor = 1,
       load_observation_names = [''omega''],
       motor_observation_names = [''torque'', ''i'', ''u''],
       converter_observation_names = [],
       supply_observation_names = [''u_sup''],
       load_limits = [100],
       motor_limits = [20, 10, 50],
       converter_limits = [],
       supply_limits = [50],
       solver_set_system_equation = (\<lambda>jac c. c),
       solver_set_initial_value = (\<lambda>y t c. c),
       solver_integrate = (\<lambda>t c. ([0, 0], c)),
       solver_t = (\<lambda>c. 0),
       solver_y = (\<lambda>c. [0, 0]),
       load_set_j_rotor = (\<lambda>j c. c),
       load_reset = (\<lambda>c. c),
       load_get_omega = (\<lambda>c s. case s of [] \<Rightarrow> 0 | w # _ \<Rightarrow> w),
       load_mechanical_ode = (\<lambda>c t s torque. [torque - (case s of [] \<Rightarrow> 0 | w # _ \<Rightarrow> w)]),
       load_mechanical_jacobian = (\<lambda>c t s torque. ([[- 1]], [1])),
       load_get_observation = (\<lambda>c s. case s of None \<Rightarrow> [0] | Some y \<Rightarrow> y),
       motor_reset = (\<lambda>c. 0),
       motor_i_in = (\<lambda>c t s. case s of None \<Rightarrow> [0] | Some y \<Rightarrow> y),
       motor_set_u_in = (\<lambda>u c. case u of [] \<Rightarrow> c | v # _ \<Rightarrow> v),
       motor_electrical_ode = (\<lambda>c s omega. [c - (case s of [] \<Rightarrow> 0 | i # _ \<Rightarrow> i) - omega]),
       motor_electrical_jacobian = (\<lambda>c s omega. ([[- 1]], [- 1], [1])),
       motor_torque = (\<lambda>c s. case s of [] \<Rightarrow> 0 | i # _ \<Rightarrow> i),
       motor_get_observation =
         (\<lambda>c s. case s of
                  None \<Rightarrow> [0, 0, c]
                | Some y \<Rightarrow> (case y of [] \<Rightarrow> [0, 0, c] | i # _ \<Rightarrow> [i, i, c])),
       converter_reset = (\<lambda>c. c),
       converter_set_action = (\<lambda>a t c. ([], c)),
       converter_i_sup = (\<lambda>c i. case i of [] \<Rightarrow> 0 | x # _ \<Rightarrow> x),
       converter_convert = (\<lambda>c t i u. u),
       converter_get_observation = (\<lambda>c. []),
       supply_reset = (\<lambda>c. c),
       supply_get_u_sup = (\<lambda>t i c. ([50], c)),
       supply_get_observation = (\<lambda>c. [50]) \<rparr>"

definition demo_base :: base_classes where
  "demo_base =
     \<lparr> base_motor_state_slice = None,
       base_load_state_slice = None,
       base_load_ode_idx = None,
       base_omega_ode_idx = None,
       base_count_step = (\<lambda>(k, t). (k + 1, t)),
       base_reset = (\<lambda>(k, t). (0, t)) \<rparr>"

definition demo_engine :: engine where
  "demo_engine = fst (projr (init demo_components demo_base (1 / 10000) None 0))"

text \<open>
  An environment whose physical system reports the action as its state, whose constraint
  monitor returns the magnitude of that state as the violation degree, and whose joint
  state counts the simulated cycles.
\<close>

definition demo_physical_system :: "(nat, int) physical_system_obj" where
  "demo_physical_system =
     \<lparr> ps_k = (\<lambda>w. w),
       ps_simulate = (\<lambda>action w. (Inr [of_int action], w + 1)),
       ps_reset = (\<lambda>w. (Inr [0], 0)),
       ps_close = ret () \<rparr>"

definition demo_reference_generator :: "nat reference_generator_obj" where
  "demo_reference_generator =
     \<lparr> rg_set_modules = ret (),
       rg_reset = (\<lambda>state. ret ()),
       rg_get_reference = (\<lambda>state. ret [0]),
       rg_get_reference_observation = (\<lambda>state. ret [0]),
       rg_close = ret () \<rparr>"

definition demo_reward_function :: "(nat, int) reward_function_obj" where
  "demo_reward_function =
     \<lparr> rf_set_modules = ret (),
       rf_reward = (\<lambda>state reference k action violation_degree. ret (- violation_degree)),
       rf_reset = ret (),
       rf_close = ret () \<rparr>"

definition demo_constraint_monitor :: "nat constraint_monitor_obj" where
  "demo_constraint_monitor =
     \<lparr> cm_set_modules = ret (),
       cm_check_constraints = (\<lambda>state. ret (case state of [] \<Rightarrow> 0 | x # _ \<Rightarrow> \<bar>x\<bar>)) \<rparr>"

definition demo_env :: "(nat, int) env" where
  "demo_env =
     \<lparr> physical_system = demo_physical_system,
       reference_generator = demo_reference_generator,
       reward_function = demo_reward_function,
       constraint_monitor = demo_constraint_monitor,
       visualizations = [],
       callbacks = [],
       done_flag = True,
       world = 0,
       seeds = [Scml \<lparr>scml_seed_sequence = None,
                      random_components =
                        [NotRandom, NotRandom, Random None, Random None, NotRandom]\<rparr>,
                Other (Random None), Other NotRandom, Other NotRandom] \<rparr>"

section \<open>Properties of the single-quadrant converter\<close>

text \<open>
  C9. With the action "on" (1), \<open>convert\<close> returns the supply voltage for the output
  current \<open>[-1]\<close> as well as for \<open>[+1]\<close>; the supply-side current \<open>i_sup\<close> is the
  first output current when the action is "on" and \<open>0\<close> when it is "off" (0), for every
  output current.
\<close>

theorem one_quadrant_scenario:
  "convert \<lparr>current_action = 1\<rparr> t [- 1] (u # us) = Inr [u]
   \<and> convert \<lparr>current_action = 1\<rparr> t [1] (u # us) = Inr [u]
   \<and> i_sup \<lparr>current_action = 1\<rparr> (i # rest) = Inr i
   \<and> i_sup \<lparr>current_action = 0\<rparr> i_out = Inr 0"
  by (simp add: convert_def i_sup_def)

text \<open>
  C10. Whenever the output current is negative, \<open>convert\<close> returns the full supply
  voltage whatever the switching action is, in particular for the action "off"; a zero
  output for a non-zero supply voltage arises only from the action "off" together with
  a non-negative output current.
\<close>

theorem convert_freewheeling:
  "(i < 0 \<longrightarrow> convert c t (i # rest) (u # us) = Inr [u])
   \<and> (i < 0 \<longrightarrow> convert \<lparr>current_action = 0\<rparr> t (i # rest) (u # us) = Inr [u])
   \<and> (convert c t (i # rest) (u # us) = Inr [0] \<and> u \<noteq> 0
        \<longrightarrow> current_action c = 0 \<and> 0 \<le> i)"
  by (auto simp add: convert_def)

theorem convert_freewheeling_witness:
  "(- 1 :: real) < 0
   \<and> convert \<lparr>current_action = 1\<rparr> 0 [- 1] [5] = Inr [5]
   \<and> convert \<lparr>current_action = 0\<rparr> 0 [- 1] [5] = Inr [5]
   \<and> convert \<lparr>current_action = 0\<rparr> 0 [1] [5] = Inr [0] \<and> (5 :: real) \<noteq> 0
   \<and> current_action \<lparr>current_action = 0\<rparr> = 0 \<and> (0 :: real) \<le> 1"
  using convert_freewheeling [of "- 1" "\<lparr>current_action = 1\<rparr>" 0 "[]" 5 "[]"]
    convert_freewheeling [of 1 "\<lparr>current_action = 0\<rparr>" 0 "[]" 5 "[]"]
  by (simp add: convert_def)

section \<open>Properties of the engine\<close>

subsection \<open>Construction\<close>

lemma init_ode_layout:
  assumes "init P base tau_arg cj c = Inr (e, c', ws)"
  shows "load_ode_slice e = (0, load_ode_size P)"
    and "motor_ode_slice e = (load_ode_size P, load_ode_size P + motor_ode_size P)"
    and "length (system_derivative e) = load_ode_size P + motor_ode_size P"
    and "sys_limits e = None"
    and "motor_state_slice e = base_motor_state_slice base"
    and "load_state_slice e = base_load_state_slice base"
  using assms by (auto simp add: init_def Let_def split: if_splits)

lemma demo_init:
  "init demo_components demo_base (1 / 10000) None 0 = Inr (demo_engine, 0, [])"
  by (simp add: demo_engine_def init_def demo_components_def Let_def)

text \<open>
  C7. Construction succeeds for every combination of components that satisfies the
  three shape invariants (supply against converter, converter against motor, motor
  against load), and fails with an assertion error for every combination that violates
  one of them.
\<close>

theorem init_shape_contract:
  "((\<exists>r. init P base tau_arg cj c = Inr r)
      \<longleftrightarrow> (supply_supply_shape P = converter_supply_shape P
           \<and> converter_output_shape P = motor_input_shape P
           \<and> motor_torque_shape P = load_speed_shape P))
   \<and> (init P base tau_arg cj c = Inl AssertionError
      \<longleftrightarrow> \<not> (supply_supply_shape P = converter_supply_shape P
           \<and> converter_output_shape P = motor_input_shape P
           \<and> motor_torque_shape P = load_speed_shape P))"
  by (simp add: init_def Let_def)

theorem init_shape_contract_witness:
  "(\<exists>r. init demo_components demo_base (1 / 10000) None 0 = Inr r)
   \<and> init (demo_components\<lparr>load_speed_shape := [3]\<rparr>) demo_base (1 / 10000) None 0
       = Inl AssertionError"
  using init_shape_contract [of demo_components demo_base "1 / 10000" None 0]
    init_shape_contract [of "demo_components\<lparr>load_speed_shape := [3]\<rparr>" demo_base
      "1 / 10000" None 0]
  by (simp add: demo_components_def)

text \<open>
  C4. When the shapes fit, construction goes through whatever \<open>calc_jacobian\<close> and the
  two \<open>HAS_JACOBIAN\<close> flags are. The solver receives the Jacobian method exactly when
  motor and load both declare one and \<open>calc_jacobian\<close> is true or left at its default;
  otherwise it receives none. The warning is issued exactly when \<open>calc_jacobian\<close> is
  true and motor or load declares no Jacobian.
\<close>

theorem init_jacobian_degradation:
  assumes "supply_supply_shape P = converter_supply_shape P"
    and "converter_output_shape P = motor_input_shape P"
    and "motor_torque_shape P = load_speed_shape P"
  shows "\<exists>e. init P base tau_arg cj c =
           Inr (e,
                load_set_j_rotor P (motor_j_rotor P)
                  (solver_set_system_equation P
                     (if (cj = Some True \<or> cj = None) \<and> motor_HAS_JACOBIAN P \<and> load_HAS_JACOBIAN P
                      then SystemJacobian else NoJacobian) c),
                if cj = Some True \<and> \<not> (motor_HAS_JACOBIAN P \<and> load_HAS_JACOBIAN P)
                then [jacobian_warning] else [])"
  using assms by (cases cj) (auto simp add: init_def Let_def)

theorem init_jacobian_degradation_witness:
  "\<exists>e. init (demo_components\<lparr>solver_set_system_equation :=
                 (\<lambda>jac c. if jac = NoJacobian then c + 1 else c + 2)\<rparr>)
          demo_base (1 / 10000) (Some True) 0
        = Inr (e, 1, [jacobian_warning])"
  using init_jacobian_degradation
    [of "demo_components\<lparr>solver_set_system_equation :=
           (\<lambda>jac c. if jac = NoJacobian then c + 1 else c + 2)\<rparr>"
      demo_base "1 / 10000" "Some True" 0]
  by (simp add: demo_components_def)

subsection \<open>The system equation\<close>

text \<open>
  C2. With the state vector split into the load segment (the first \<open>load_ode_size\<close>
  entries) and the motor segment (the next \<open>motor_ode_size\<close> entries), the system
  equation returns the load's mechanical derivative followed by the motor's electrical
  derivative: the speed is read from the load segment, the electrical derivative is
  computed from the motor segment and the speed, the torque from the motor segment, and
  the mechanical derivative from the time, the load segment and the torque. The
  derivatives are assumed to have the sizes the components declare.
\<close>

theorem system_equation_layout:
  fixes P :: "('c, 'act) scml_components"
  defines "l_seg \<equiv> \<lambda>state. take (load_ode_size P) state"
    and "m_seg \<equiv> \<lambda>state. take (motor_ode_size P) (drop (load_ode_size P) state)"
  defines "elec \<equiv> \<lambda>c state.
             motor_electrical_ode P c (m_seg state) (load_get_omega P c (l_seg state))"
    and "mech \<equiv> \<lambda>c t state.
             load_mechanical_ode P c t (l_seg state) (motor_torque P c (m_seg state))"
  assumes "load_ode_slice e = (0, load_ode_size P)"
    and "motor_ode_slice e = (load_ode_size P, load_ode_size P + motor_ode_size P)"
    and "length (system_derivative e) = load_ode_size P + motor_ode_size P"
    and "length (elec c state) = motor_ode_size P"
    and "length (mech c t state) = load_ode_size P"
  shows "system_equation P e c t state =
           Inr (mech c t state @ elec c state,
                e\<lparr>system_derivative := mech c t state @ elec c state\<rparr>)"
  using assms
  by (simp add: system_equation_def np_setslice_def py_slice_def Let_def)

theorem system_equation_layout_witness:
  "init demo_components demo_base (1 / 10000) None 0 = Inr (demo_engine, 0, [])
   \<and> system_equation demo_components demo_engine 12 0 [3, 4]
       = Inr ([1, 5], demo_engine\<lparr>system_derivative := [1, 5]\<rparr>)"
proof -
  note l = init_ode_layout(1-3) [OF demo_init]
  show ?thesis
    using system_equation_layout [OF l, of 12 "[3, 4]" 0] demo_init
    by (simp add: demo_components_def)
qed

subsection \<open>The system Jacobian\<close>

text \<open>
  C3. What the code does: the Jacobian method raises on every call. It raises
  \<^verbatim>\<open>AttributeError\<close> at the read of \<^verbatim>\<open>_load_ode_idx\<close> when the instance has no such
  attribute, and \<^verbatim>\<open>NameError\<close> at the first use of \<^verbatim>\<open>system_jac\<close> otherwise. No block
  matrix is ever returned to the solver.
\<close>

theorem system_jacobian_raises:
  "system_jacobian P e c t state =
     Inl (case load_ode_idx e of
            None \<Rightarrow> AttributeError ''_load_ode_idx''
          | Some idx \<Rightarrow> NameError ''system_jac'')"
  by (simp add: system_jacobian_def Let_def split: prod.splits option.splits)

subsection \<open>The observation\<close>

lemma simulate_loop_Some:
  "\<exists>y'. fst (simulate_loop P e ts (Some y) c) = Some y'"
  by (induction ts arbitrary: y c) (auto simp add: Let_def split: prod.splits)

lemma simulate_loop_bound:
  "simulate_loop P e (ts @ [t]) ode c \<noteq> (None, c')"
proof (cases ts)
  case Nil
  then show ?thesis by (auto simp add: Let_def split: prod.splits)
next
  case (Cons a list)
  show ?thesis
    using simulate_loop_Some [of P e "list @ [t]"]
    by (auto simp add: Cons Let_def split: prod.splits) (metis fst_conv option.distinct(1))
qed

text \<open>
  When \<^verbatim>\<open>_limits\<close> has been filled, \<open>reset\<close> returns the concatenation of the four
  observations (load, motor, converter, supply) divided elementwise by the limits.
\<close>

lemma reset_normalizes:
  assumes "sys_limits e = Some l"
    and "reset P base e c = (r, e', c')"
    and "length (system_observation e') = length l"
  shows "r = Inr (map2 (/) (system_observation e') l)
         \<and> system_observation e'
             = load_get_observation P c' (load_state e') @ motor_get_observation P c' (motor_state e')
               @ converter_get_observation P c' @ supply_get_observation P c'"
  using assms
  by (auto simp add: reset_def emit_observation_def concatenate_observation_def np_divide_def
      Let_def split: prod.splits)

text \<open>
  C1. What the code does on an engine as constructed: \<open>simulate\<close> raises
  \<^verbatim>\<open>AttributeError\<close> at the read of \<^verbatim>\<open>_motor_state_slice\<close>, for every action and
  whatever the components do, whenever the base classes give the instance no such
  attribute; and \<open>reset\<close> raises \<^verbatim>\<open>TypeError\<close>, because it divides by the attribute
  \<^verbatim>\<open>_limits\<close>, which construction sets to \<^verbatim>\<open>None\<close> and only the property
  \<^verbatim>\<open>limits\<close> fills. Neither call returns an observation.
\<close>

theorem fresh_engine_emits_no_observation:
  assumes "init P base tau_arg cj c = Inr (e, c', ws)"
    and "base_motor_state_slice base = None"
  shows "fst (simulate P base e action c1) = Inl (AttributeError ''_motor_state_slice'')
         \<and> fst (reset P base e c2) = Inl TypeError"
proof
  have ms: "motor_state_slice e = None"
    using init_ode_layout(5) [OF assms(1)] assms(2) by simp
  show "fst (simulate P base e action c1) = Inl (AttributeError ''_motor_state_slice'')"
    using ms simulate_loop_bound [of P e]
    by (auto simp add: simulate_def Let_def split: prod.splits option.splits)
next
  have lim: "sys_limits e = None"
    using init_ode_layout(4) [OF assms(1)] .
  show "fst (reset P base e c2) = Inl TypeError"
    using lim
    by (simp add: reset_def emit_observation_def Let_def split: prod.splits)
qed

theorem fresh_engine_emits_no_observation_witness:
  "init demo_components demo_base (1 / 10000) None 0 = Inr (demo_engine, 0, [])
   \<and> base_motor_state_slice demo_base = None
   \<and> fst (simulate demo_components demo_base demo_engine (1 :: int) 0)
       = Inl (AttributeError ''_motor_state_slice'')
   \<and> fst (reset demo_components demo_base demo_engine 0) = Inl TypeError"
proof -
  have b: "base_motor_state_slice demo_base = None"
    by (simp add: demo_base_def)
  show ?thesis
    using fresh_engine_emits_no_observation [OF demo_init b, of 1 0 0] demo_init b by simp
qed

section \<open>Properties of the environment\<close>

subsection \<open>The flag and the calls\<close>



















section \<open>Properties of seeding\<close>

lemma random_component_seed_unseeded:
  "unseeded_rcomp a = unseeded_rcomp b \<Longrightarrow> random_component_seed sq a = random_component_seed sq b"
  by (cases a; cases b) (simp_all add: unseeded_rcomp_def random_component_seed_def)

lemma seed_zip_unseeded:
  "map unseeded_rcomp xs = map unseeded_rcomp ys \<Longrightarrow>
     map (\<lambda>(component, sub_seed). random_component_seed sub_seed component) (zip xs subs)
     = map (\<lambda>(component, sub_seed). random_component_seed sub_seed component) (zip ys subs)"
proof (induction xs arbitrary: ys subs)
  case Nil
  then show ?case by simp
next
  case (Cons x xs)
  then obtain y ys' where ys: "ys = y # ys'" by (cases ys) auto
  from Cons.prems ys have h: "unseeded_rcomp x = unseeded_rcomp y"
    and t: "map unseeded_rcomp xs = map unseeded_rcomp ys'" by simp_all
  note IH = Cons.IH [OF t]
  show ?case
  proof (cases subs)
    case Nil
    then show ?thesis by simp
  next
    case (Cons sub subs')
    show ?thesis
      using random_component_seed_unseeded [OF h, of sub] IH [of subs']
      by (simp add: ys Cons)
  qed
qed

lemma scml_seed_unseeded:
  assumes "map unseeded_rcomp (random_components s) = map unseeded_rcomp (random_components s')"
  shows "scml_seed sq s = scml_seed sq s'"
proof -
  have "length (random_components s) = length (random_components s')"
    using assms by (rule map_eq_imp_length_eq)
  then show ?thesis
    using seed_zip_unseeded [OF assms]
    by (simp add: scml_seed_def Let_def split: prod.splits)
qed

lemma component_seed_unseeded:
  "unseeded a = unseeded b \<Longrightarrow> component_seed sq a = component_seed sq b"
  by (cases a; cases b)
    (auto simp add: unseeded_def component_seed_def
      intro: scml_seed_unseeded random_component_seed_unseeded)

lemma component_zip_unseeded:
  "map unseeded xs = map unseeded ys \<Longrightarrow>
     map (\<lambda>(sub, rc). component_seed sub rc) (zip subs xs)
     = map (\<lambda>(sub, rc). component_seed sub rc) (zip subs ys)"
proof (induction xs arbitrary: ys subs)
  case Nil
  then show ?case by simp
next
  case (Cons x xs)
  then obtain y ys' where ys: "ys = y # ys'" by (cases ys) auto
  from Cons.prems ys have h: "unseeded x = unseeded y"
    and t: "map unseeded xs = map unseeded ys'" by simp_all
  note IH = Cons.IH [OF t]
  show ?case
  proof (cases subs)
    case Nil
    then show ?thesis by simp
  next
    case (Cons sub subs')
    show ?thesis
      using component_seed_unseeded [OF h, of sub] IH [of subs']
      by (simp add: ys Cons)
  qed
qed

lemma seed_components_unseeded:
  assumes "map unseeded xs = map unseeded ys"
  shows "seed_components seed os_entropy xs = seed_components seed os_entropy ys"
proof -
  have "length xs = length ys"
    using assms by (rule map_eq_imp_length_eq)
  then show ?thesis
    using component_zip_unseeded [OF assms]
    by (simp add: seed_components_def Let_def split: sum.splits prod.splits)
qed

lemma seed_components_integer:
  "0 \<le> n \<Longrightarrow>
     seed_components (Some n) os_entropy xs
     = Inr ([nat n],
            map (\<lambda>(sub, rc). component_seed sub rc)
              (zip (map (\<lambda>i. \<lparr>entropy = nat n, spawn_key = [i], n_children_spawned = 0\<rparr>)
                      [0 ..< length xs]) xs))"
  by (simp add: seed_components_def SeedSequence_def spawn_def)

lemma seed_components_os:
  "seed_components None os_entropy xs = seed_components (Some (int os_entropy)) os_entropy' xs
   \<and> (\<exists>seeded. seed_components None os_entropy xs = Inr ([os_entropy], seeded))"
  by (simp add: seed_components_def SeedSequence_def spawn_def)

lemma scml_seed_children:
  "random_components (scml_seed sq s)
     = map (\<lambda>(component, sub_seed). random_component_seed sub_seed component)
         (zip (random_components s)
            (map (\<lambda>i. \<lparr>entropy = entropy sq, spawn_key = spawn_key sq @ [i],
                         n_children_spawned = 0\<rparr>)
               [n_children_spawned sq ..< n_children_spawned sq + length (random_components s)]))"
  by (simp add: scml_seed_def spawn_def)

text \<open>
  C8. Seeding with a non-negative integer \<open>n\<close> returns \<open>[n]\<close> and leaves every
  component with a sequence that depends on \<open>n\<close> and on the component's place alone:
  neither the sequences the components held before nor the operating system's entropy
  enter, so seeding twice with the same integer gives the same sequences, also inside
  the engine. The component at place \<open>i\<close> is seeded with the child of entropy \<open>n\<close> and
  spawn key \<open>[i]\<close>. Seeding without an integer returns the entropy drawn, and seeding
  again with the returned value reproduces the same sequences.
\<close>

theorem seed_reproducible:
  assumes "0 \<le> n"
    and "map unseeded (seeds e) = map unseeded (seeds e')"
  shows "fst (env_seed (Some n) os_entropy e) = Inr [nat n]
         \<and> seeds (snd (env_seed (Some n) os_entropy e))
             = seeds (snd (env_seed (Some n) os_entropy' e'))
         \<and> seeds (snd (env_seed (Some n) os_entropy e))
             = map (\<lambda>(sub, rc). component_seed sub rc)
                 (zip (map (\<lambda>i. \<lparr>entropy = nat n, spawn_key = [i], n_children_spawned = 0\<rparr>)
                         [0 ..< length (seeds e)]) (seeds e))
         \<and> fst (env_seed None os_entropy e) = Inr [os_entropy]
         \<and> seeds (snd (env_seed None os_entropy e))
             = seeds (snd (env_seed (Some (int os_entropy)) os_entropy' e'))"
proof -
  have a: "seed_components (Some n) os_entropy' (seeds e')
           = seed_components (Some n) os_entropy (seeds e)"
    using seed_components_unseeded [OF assms(2), of "Some n" os_entropy']
      seed_components_integer [OF assms(1), of os_entropy' "seeds e"]
      seed_components_integer [OF assms(1), of os_entropy "seeds e"]
    by simp
  have b: "seed_components (Some (int os_entropy)) os_entropy' (seeds e')
           = seed_components None os_entropy (seeds e)"
    using seed_components_unseeded [OF assms(2), of "Some (int os_entropy)" os_entropy']
      seed_components_os [of os_entropy "seeds e" os_entropy']
    by simp
  obtain seeded where c: "seed_components None os_entropy (seeds e) = Inr ([os_entropy], seeded)"
    using seed_components_os [of os_entropy "seeds e"] by blast
  show ?thesis
    using seed_components_integer [OF assms(1), of os_entropy "seeds e"]
    by (simp add: env_seed_def a b c)
qed

theorem seed_reproducible_witness:
  "fst (env_seed (Some 42) 7 demo_env) = Inr [42]
   \<and> seeds (snd (env_seed (Some 42) 7 demo_env))
       = seeds (snd (env_seed (Some 42) 9 (snd (env_seed (Some 5) 0 demo_env))))
   \<and> fst (env_seed None 7 demo_env) = Inr [7]
   \<and> seeds (snd (env_seed None 7 demo_env))
       = seeds (snd (env_seed (Some 7) 9 (snd (env_seed (Some 5) 0 demo_env))))
   \<and> seeds (snd (env_seed (Some 42) 7 demo_env))
       = [Scml \<lparr>scml_seed_sequence =
                  Some \<lparr>entropy = 42, spawn_key = [0], n_children_spawned = 5\<rparr>,
                random_components =
                  [NotRandom, NotRandom,
                   Random (Some \<lparr>entropy = 42, spawn_key = [0, 2], n_children_spawned = 0\<rparr>),
                   Random (Some \<lparr>entropy = 42, spawn_key = [0, 3], n_children_spawned = 0\<rparr>),
                   NotRandom]\<rparr>,
          Other (Random (Some \<lparr>entropy = 42, spawn_key = [1], n_children_spawned = 0\<rparr>)),
          Other NotRandom, Other NotRandom]"
proof -
  have n: "(0 :: int) \<le> 42" by simp
  have u: "map unseeded (seeds demo_env)
           = map unseeded (seeds (snd (env_seed (Some 5) 0 demo_env)))"
    by (simp add: env_seed_def seed_components_def SeedSequence_def spawn_def demo_env_def
        unseeded_def unseeded_rcomp_def component_seed_def scml_seed_def
        random_component_seed_def Let_def)
  have v: "seeds (snd (env_seed (Some 42) 7 demo_env))
       = [Scml \<lparr>scml_seed_sequence =
                  Some \<lparr>entropy = 42, spawn_key = [0], n_children_spawned = 5\<rparr>,
                random_components =
                  [NotRandom, NotRandom,
                   Random (Some \<lparr>entropy = 42, spawn_key = [0, 2], n_children_spawned = 0\<rparr>),
                   Random (Some \<lparr>entropy = 42, spawn_key = [0, 3], n_children_spawned = 0\<rparr>),
                   NotRandom]\<rparr>,
          Other (Random (Some \<lparr>entropy = 42, spawn_key = [1], n_children_spawned = 0\<rparr>)),
          Other NotRandom, Other NotRandom]"
    by (simp add: env_seed_def seed_components_def SeedSequence_def spawn_def demo_env_def
        component_seed_def scml_seed_def random_component_seed_def Let_def)
  show ?thesis
    using seed_reproducible [OF n u, of 7 9] v by simp
qed

end
